theory Spec2Isabelle
  imports Main
begin

section \<open>JavaScript values that reach the logger\<close>

text \<open>
  Values the program hands around are strings and integral numbers. A JavaScript
  number is an IEEE double; every number of this program (chat and message
  identifiers, counters, byte counts, clock readings in milliseconds) is an integer
  far below \<open>2 ^ 53\<close>, where doubles are exact, so numbers are \<open>int\<close> or \<open>nat\<close>.
\<close>

datatype jsval = JStr string | JNum int

text \<open>
  An error object as the handlers inspect it: its \<open>code\<close> property (absent on errors
  that are not system errors) and its message.
\<close>

datatype jserror = JsError (err_code: "string option") (err_message: string)

text \<open>
  Arguments of a logging call. The results of Node's own \<open>util.format\<close>,
  \<open>util.inspect\<close> and \<open>Date.prototype.toISOString\<close> are kept as the calls that
  produce them: \<open>Format m ps\<close> is the string \<open>util.format(m, ...ps)\<close> returns,
  \<open>IsoString t\<close> the string \<open>new Date(t).toISOString()\<close>, \<open>Inspect e\<close> the string
  \<open>util.inspect(e)\<close>.
\<close>

datatype logval =
    Val jsval
  | IsoString int
  | Format logval "logval list"
  | Inspect jserror

datatype level = Debug | Info | Warn | Error

fun level_name :: "level \<Rightarrow> string" where
  "level_name Debug = ''debug''"
| "level_name Info = ''info''"
| "level_name Warn = ''warn''"
| "level_name Error = ''error''"

text \<open>\<open>String.prototype.toUpperCase\<close> and \<open>toLowerCase\<close> on ASCII text.\<close>

definition upper_char :: "char \<Rightarrow> char" where
  "upper_char c =
     (let n = (of_char c :: nat) in if 97 \<le> n \<and> n \<le> 122 then char_of (n - 32) else c)"

definition lower_char :: "char \<Rightarrow> char" where
  "lower_char c =
     (let n = (of_char c :: nat) in if 65 \<le> n \<and> n \<le> 90 then char_of (n + 32) else c)"

definition toUpperCase :: "string \<Rightarrow> string" where
  "toUpperCase s = map upper_char s"

definition toLowerCase :: "string \<Rightarrow> string" where
  "toLowerCase s = map lower_char s"

section \<open>The outside world\<close>

text \<open>A path built by \<open>path.join(dir, name)\<close>.\<close>

datatype path = PathJoin string string

text \<open>
  What the process reads from outside at the moment of a call: the \<open>DEBUG\<close>
  environment variable, the clock (\<open>Date.now()\<close>, milliseconds), the outcome of the
  filesystem calls (\<open>None\<close>: the promise resolves, \<open>Some e\<close>: it rejects with \<open>e\<close>),
  the platform's answer to \<open>getFileLink\<close> (the \<open>href\<close> of the URL), the outcome of
  the download, and the entropy \<open>crypto.randomInt\<close> draws from.
\<close>

record world =
  env_DEBUG :: "string option"
  date_now :: int
  fs_access :: "path \<Rightarrow> nat \<Rightarrow> jserror option"
  fs_rm :: "path \<Rightarrow> jserror option"
  getFileLink :: "string \<Rightarrow> jserror + string"
  fetchStream :: "string \<Rightarrow> path \<Rightarrow> jserror option"
  entropy :: nat

text \<open>A destination of \<open>sendMessage\<close>: a numeric chat id or a string.\<close>

datatype chat_ref = ChatId int | ChatName string

record send_extra =
  reply_to_message_id :: "int option"
  allow_sending_without_reply :: "bool option"
  parse_mode :: "string option"
  callback_button :: "(string \<times> string) option"

record cb_extra =
  show_alert :: "bool option"
  cache_time :: "nat option"

text \<open>
  The calls the program makes on the outside world, in the order it makes them.
  \<open>Console l f as\<close> is \<open>console[l](f, ...as)\<close>. The platform calls carry their
  arguments in the positions the library declares them:
  \<open>editMessageText(chatId, messageId, inlineMessageId, text)\<close> and
  \<open>deleteMessage(chatId, messageId)\<close>.
\<close>

datatype effect =
    Console level logval "logval list"
  | CallGetFileLink string
  | CallFetchStream string path
  | FsAccess path nat
  | FsRm path
  | SendMessage chat_ref string send_extra
  | AnswerCbQuery string "cb_extra option"
  | EditMessageText int int "string option" string
  | DeleteMessage int int

section \<open>logger.mts\<close>

type_synonym LogFunc = "world \<Rightarrow> logval \<Rightarrow> logval list \<Rightarrow> effect list"

definition console :: "level \<Rightarrow> LogFunc" where
  "console l = (\<lambda>w message optionalParams. [Console l message optionalParams])"

text \<open>\<open>stopFunc\<close> is a function or \<open>false\<close>: \<open>None\<close> is \<open>false\<close>.\<close>

definition makeLogger ::
  "LogFunc \<Rightarrow> (world \<Rightarrow> bool) option \<Rightarrow> string \<Rightarrow> logval list \<Rightarrow> LogFunc" where
  "makeLogger callFunc stopFunc format patterns =
     (\<lambda>w message optionalParams.
        if (case stopFunc of None \<Rightarrow> False | Some f \<Rightarrow> f w) then []
        else callFunc w (Val (JStr (format @ '' %s'')))
               (patterns @ [Format message optionalParams]))"

text \<open>
  \<open>internalLog\<close> reads the clock when it is called: \<open>t\<close> is the value of
  \<open>new Date()\<close> at that moment.
\<close>

definition internalLog :: "int \<Rightarrow> level \<Rightarrow> (world \<Rightarrow> bool) option \<Rightarrow> LogFunc" where
  "internalLog t l stopFunc =
     makeLogger (console l) stopFunc ''[%s] [%s]''
       [IsoString t, Val (JStr (toUpperCase (level_name l)))]"

record logger =
  debug :: LogFunc
  info :: LogFunc
  warn :: LogFunc
  error :: LogFunc

text \<open>\<open>!process.env.DEBUG\<close>: true when the variable is unset or empty.\<close>

definition debug_disabled :: "world \<Rightarrow> bool" where
  "debug_disabled w = (case env_DEBUG w of None \<Rightarrow> True | Some s \<Rightarrow> s = [])"

text \<open>
  \<open>baseLogger\<close> is a constant of the module, built once when the module is loaded;
  \<open>loaded l\<close> is the clock reading at which the logger of severity \<open>l\<close> was built.
\<close>

definition baseLogger :: "(level \<Rightarrow> int) \<Rightarrow> logger" where
  "baseLogger loaded =
     \<lparr> debug = internalLog (loaded Debug) Debug (Some debug_disabled),
       info = internalLog (loaded Info) Info None,
       warn = internalLog (loaded Warn) Warn None,
       error = internalLog (loaded Error) Error None \<rparr>"

definition getLogger :: "logval \<Rightarrow> LogFunc \<Rightarrow> LogFunc" where
  "getLogger name callFunc = makeLogger callFunc None ''[%s]'' [name]"

text \<open>\<open>lastThreadIds\<close>: the map from labels to the last sequence number given out.\<close>

type_synonym lastThreadIds = "string \<rightharpoonup> nat"

text \<open>\<open>(lastThreadIds.get(threadName) || 0) + 1\<close>\<close>

definition createThread_id :: "lastThreadIds \<Rightarrow> string \<Rightarrow> nat" where
  "createThread_id ids threadName =
     (case ids threadName of None \<Rightarrow> 0 | Some n \<Rightarrow> if n = 0 then 0 else n) + 1"

definition createThread_name :: "lastThreadIds \<Rightarrow> string \<Rightarrow> logval" where
  "createThread_name ids threadName =
     Format (Val (JStr ''%s:%d''))
       [Val (JStr threadName), Val (JNum (int (createThread_id ids threadName)))]"

definition createThread ::
  "(level \<Rightarrow> int) \<Rightarrow> lastThreadIds \<Rightarrow> string \<Rightarrow> logger \<times> lastThreadIds" where
  "createThread loaded ids threadName =
     (let id = createThread_id ids threadName;
          ids' = ids(threadName \<mapsto> id);
          name = createThread_name ids threadName
      in (\<lparr> debug = getLogger name (debug (baseLogger loaded)),
            info = getLogger name (info (baseLogger loaded)),
            warn = getLogger name (warn (baseLogger loaded)),
            error = getLogger name (error (baseLogger loaded)) \<rparr>, ids'))"

definition main :: "(level \<Rightarrow> int) \<Rightarrow> logger" where
  "main loaded =
     \<lparr> debug = getLogger (Val (JStr ''main'')) (debug (baseLogger loaded)),
       info = getLogger (Val (JStr ''main'')) (info (baseLogger loaded)),
       warn = getLogger (Val (JStr ''main'')) (warn (baseLogger loaded)),
       error = getLogger (Val (JStr ''main'')) (error (baseLogger loaded)) \<rparr>"

text \<open>The operation of a logger for a severity.\<close>

fun logger_op :: "logger \<Rightarrow> level \<Rightarrow> LogFunc" where
  "logger_op lg Debug = debug lg"
| "logger_op lg Info = info lg"
| "logger_op lg Warn = warn lg"
| "logger_op lg Error = error lg"

text \<open>
  A run of the process: \<open>createThread\<close> called with each label of a list in turn,
  starting from a given map; the result lists the sequence number each call gave out.
\<close>

fun createThreads :: "(level \<Rightarrow> int) \<Rightarrow> lastThreadIds \<Rightarrow> string list \<Rightarrow> nat list" where
  "createThreads loaded ids [] = []"
| "createThreads loaded ids (l # ls) =
     createThread_id ids l # createThreads loaded (snd (createThread loaded ids l)) ls"

text \<open>
  The sequence number leaves \<open>createThread\<close> only inside the loggers it returns, as
  the name \<open>label:id\<close> they put into every line. \<open>line_name\<close> reads that name off a
  written line: the first pattern of the inner format. \<open>threadNames\<close> is the same run
  as above, observed through the returned loggers: each thread writes one line at
  warn severity, and the result lists the name found in it.
\<close>

definition line_name :: "effect list \<Rightarrow> logval option" where
  "line_name es =
     (case es of
        [Console l f as] \<Rightarrow>
          (case as of
             [ts, lv, Format g (name # rest)] \<Rightarrow> Some name
           | _ \<Rightarrow> None)
      | _ \<Rightarrow> None)"

fun threadNames ::
  "(level \<Rightarrow> int) \<Rightarrow> world \<Rightarrow> lastThreadIds \<Rightarrow> string list \<Rightarrow> logval option list" where
  "threadNames loaded w ids [] = []"
| "threadNames loaded w ids (l # ls) =
     line_name (warn (fst (createThread loaded ids l)) w (Val (JStr [])) []) #
     threadNames loaded w (snd (createThread loaded ids l)) ls"

section \<open>Numbers and strings of the standard library\<close>

text \<open>The digit of a value below 36, as \<open>Number.prototype.toString\<close> writes it.\<close>

definition digit_char :: "nat \<Rightarrow> char" where
  "digit_char d = (if d < 10 then char_of (48 + d) else char_of (87 + d))"

text \<open>\<open>n.toString(radix)\<close> for a natural number \<open>n\<close> and a radix from 2 to 36.\<close>

function nat_toString :: "nat \<Rightarrow> nat \<Rightarrow> string" where
  "nat_toString radix n =
     (if radix < 2 \<or> n < radix then [digit_char n]
      else nat_toString radix (n div radix) @ [digit_char (n mod radix)])"
  by pat_completeness auto
termination
  by (relation "measure snd") auto

declare nat_toString.simps [simp del]

text \<open>\<open>String(x)\<close> for a string or an integral number.\<close>

fun js_String :: "jsval \<Rightarrow> string" where
  "js_String (JStr s) = s"
| "js_String (JNum n) =
     (if n < 0 then CHR ''-'' # nat_toString 10 (nat (- n)) else nat_toString 10 (nat n))"

text \<open>\<open>s.split(',')\<close>\<close>

fun split_comma :: "string \<Rightarrow> string list" where
  "split_comma [] = [[]]"
| "split_comma (c # cs) =
     (if c = CHR '','' then [] # split_comma cs
      else (case split_comma cs of [] \<Rightarrow> [[c]] | x # xs \<Rightarrow> (c # x) # xs))"

text \<open>ASCII white space, which \<open>parseInt\<close> skips at the start of its input.\<close>

definition is_space :: "char \<Rightarrow> bool" where
  "is_space c = (of_char c \<in> {9, 10, 11, 12, 13, 32 :: nat})"

definition digit_value :: "char \<Rightarrow> nat option" where
  "digit_value c =
     (let n = (of_char c :: nat) in
      if 48 \<le> n \<and> n \<le> 57 then Some (n - 48)
      else if 97 \<le> n \<and> n \<le> 122 then Some (n - 87)
      else if 65 \<le> n \<and> n \<le> 90 then Some (n - 55)
      else None)"

definition is_radix_digit :: "nat \<Rightarrow> char \<Rightarrow> bool" where
  "is_radix_digit R c = (case digit_value c of None \<Rightarrow> False | Some d \<Rightarrow> d < R)"

definition radix_value :: "nat \<Rightarrow> string \<Rightarrow> nat" where
  "radix_value R Z =
     foldl (\<lambda>a c. a * R + (case digit_value c of None \<Rightarrow> 0 | Some d \<Rightarrow> d)) 0 Z"

text \<open>
  \<open>parseInt(string, radix)\<close> as ECMAScript defines it, for an ASCII string and a
  radix that is a natural number; \<open>None\<close> is \<open>NaN\<close>. The steps: skip leading white
  space; take a sign; a radix of 0 means 10; a radix below 2 or above 36 gives
  \<open>NaN\<close>; with radix 0 or 16 a prefix \<open>0x\<close> or \<open>0X\<close> is removed and the radix
  is 16; the longest prefix of digits of the radix is the numeral; no digit gives
  \<open>NaN\<close>.
\<close>

definition parseInt :: "string \<Rightarrow> nat \<Rightarrow> int option" where
  "parseInt string radix =
     (let S = dropWhile is_space string;
          sign = (case S of c # _ \<Rightarrow> if c = CHR ''-'' then - 1 else 1 | [] \<Rightarrow> (1::int));
          S1 = (case S of c # cs \<Rightarrow> if c = CHR ''+'' \<or> c = CHR ''-'' then cs else S | [] \<Rightarrow> S)
      in if radix \<noteq> 0 \<and> (radix < 2 \<or> 36 < radix) then None
         else
           let stripPrefix = (radix = 0 \<or> radix = 16);
               R0 = (if radix = 0 then 10 else radix);
               has0x = (stripPrefix \<and> (take 2 S1 = ''0x'' \<or> take 2 S1 = ''0X''));
               S2 = (if has0x then drop 2 S1 else S1);
               R = (if has0x then 16 else R0);
               Z = takeWhile (is_radix_digit R) S2
           in if Z = [] then None else Some (sign * int (radix_value R Z)))"

text \<open>
  \<open>xs.map(Number.parseInt)\<close>: \<open>Array.prototype.map\<close> calls its function with the
  element, the element's index and the array, so \<open>parseInt\<close> receives the index as
  its radix.
\<close>

definition map_parseInt :: "string list \<Rightarrow> int option list" where
  "map_parseInt xs = map (\<lambda>(i, x). parseInt x i) (enumerate 0 xs)"

text \<open>
  \<open>path.extname\<close> (POSIX), following Node's implementation: a scan from the end of
  the string, \<open>extname_loop p (Suc i) s\<close> looking at index \<open>i\<close>.
\<close>

record ext_state =
  startDot :: int
  startPart :: int
  end' :: int
  matchedSlash :: bool
  preDotState :: int

fun extname_loop :: "string \<Rightarrow> nat \<Rightarrow> ext_state \<Rightarrow> ext_state" where
  "extname_loop p 0 s = s"
| "extname_loop p (Suc i) s =
     (if p ! i = CHR ''/'' then
        (if \<not> matchedSlash s then s\<lparr>startPart := int i + 1\<rparr>
         else extname_loop p i s)
      else
        (let s1 = (if end' s = - 1 then s\<lparr>end' := int i + 1, matchedSlash := False\<rparr> else s);
             s2 = (if p ! i = CHR ''.'' then
                     (if startDot s1 = - 1 then s1\<lparr>startDot := int i\<rparr>
                      else if preDotState s1 \<noteq> 1 then s1\<lparr>preDotState := 1\<rparr>
                      else s1)
                   else if startDot s1 \<noteq> - 1 then s1\<lparr>preDotState := - 1\<rparr>
                   else s1)
         in extname_loop p i s2))"

definition extname :: "string \<Rightarrow> string" where
  "extname p =
     (let s = extname_loop p (length p)
                \<lparr>startDot = - 1, startPart = 0, end' = - 1, matchedSlash = True,
                 preDotState = 0\<rparr>
      in if startDot s = - 1 \<or> end' s = - 1 \<or> preDotState s = 0 \<or>
            (preDotState s = 1 \<and> startDot s = end' s - 1 \<and> startDot s = startPart s + 1)
         then []
         else drop (nat (startDot s)) (take (nat (end' s)) p))"

text \<open>
  \<open>crypto.randomInt(min, max)\<close>: an integer \<open>n\<close> with \<open>min \<le> n < max\<close>, drawn from
  the world's entropy.
\<close>

definition randomInt :: "world \<Rightarrow> nat \<Rightarrow> nat \<Rightarrow> nat" where
  "randomInt w lo hi = lo + entropy w mod (hi - lo)"

section \<open>The bot: configuration\<close>

text \<open>
  \<open>getEnv(name)\<close> for a required variable: the value when it is set and not empty;
  otherwise the process logs and exits with status 1, which is \<open>None\<close>.
\<close>

definition getEnv :: "(string \<Rightarrow> string option) \<Rightarrow> string \<Rightarrow> string option" where
  "getEnv env name =
     (case env name of None \<Rightarrow> None | Some found \<Rightarrow> if found \<noteq> [] then Some found else None)"

record config =
  bot_token :: string
  savePath :: string
  domain :: string
  enableGroups :: "int option list"
  infoChannel :: string

text \<open>\<open>domain.match(/^https?:\/\//) ? domain : 'https://' + domain\<close>\<close>

definition with_scheme :: "string \<Rightarrow> string" where
  "with_scheme d =
     (if take 7 d = ''http://'' \<or> take 8 d = ''https://'' then d else ''https://'' @ d)"

text \<open>The constants of the module, in the order the module reads them.\<close>

definition loadConfig :: "(string \<Rightarrow> string option) \<Rightarrow> config option" where
  "loadConfig env =
     Option.bind (getEnv env ''BOT_TOKEN'') (\<lambda>tok.
     Option.bind (getEnv env ''FILE_SAVE_PATH'') (\<lambda>sp.
     Option.bind (getEnv env ''DOMAIN'') (\<lambda>d.
     Option.bind (getEnv env ''ENABLE_GROUPS'') (\<lambda>gs.
     Option.bind (getEnv env ''INFO_CHANNEL'') (\<lambda>ch.
       Some \<lparr> bot_token = tok, savePath = sp, domain = with_scheme d,
              enableGroups = map_parseInt (split_comma gs), infoChannel = ch \<rparr>)))))"

text \<open>
  \<open>enableGroups.includes(id)\<close> for a number \<open>id\<close> that is not \<open>NaN\<close>: some element
  is that number.
\<close>

definition array_includes :: "int option list \<Rightarrow> int \<Rightarrow> bool" where
  "array_includes xs x = (Some x \<in> set xs)"

section \<open>The bot: finding the attachment\<close>

datatype file_type = Photo | Sticker | Audio | Voice | Video | Document

text \<open>
  The fields of an attachment the program reads. \<open>file_size\<close> is a byte count and is
  optional.
\<close>

record tg_file =
  file_id :: string
  file_unique_id :: string
  file_size :: "nat option"

text \<open>A message: its id and, for each kind of attachment, whether it carries one.\<close>

record message =
  message_id :: int
  photo :: "tg_file list option"
  sticker :: "tg_file option"
  audio :: "tg_file option"
  voice :: "tg_file option"
  video :: "tg_file option"
  document :: "tg_file option"

text \<open>
  The loop over the photo's variants, with its two variables \<open>sz\<close> and \<open>tmp\<close>.
  \<open>p.file_size && p.file_size > sz\<close> is false for an absent size and for 0;
  \<open>p.file_size || 0\<close> is 0 for an absent size.
\<close>

fun photoLoop :: "tg_file list \<Rightarrow> nat \<Rightarrow> tg_file option \<Rightarrow> nat \<times> tg_file option" where
  "photoLoop [] sz tmp = (sz, tmp)"
| "photoLoop (p # ps) sz tmp =
     (if tmp = None \<or> (case file_size p of None \<Rightarrow> False | Some n \<Rightarrow> n \<noteq> 0 \<and> sz < n)
      then photoLoop ps (case file_size p of None \<Rightarrow> 0 | Some n \<Rightarrow> n) (Some p)
      else photoLoop ps sz tmp)"

fun message_get :: "message \<Rightarrow> file_type \<Rightarrow> tg_file option" where
  "message_get m Photo = None"
| "message_get m Sticker = sticker m"
| "message_get m Audio = audio m"
| "message_get m Voice = voice m"
| "message_get m Video = video m"
| "message_get m Document = document m"

fun firstKey :: "message \<Rightarrow> file_type list \<Rightarrow> (file_type \<times> tg_file) option" where
  "firstKey m [] = None"
| "firstKey m (key # keys) =
     (case message_get m key of Some file \<Rightarrow> Some (key, file) | None \<Rightarrow> firstKey m keys)"

text \<open>\<open>getFileIds\<close>: the attachment with its \<open>file_type\<close>, or \<open>None\<close> for \<open>false\<close>.\<close>

definition getFileIds :: "message \<Rightarrow> (file_type \<times> tg_file) option" where
  "getFileIds m =
     (case (case photo m of None \<Rightarrow> None | Some ps \<Rightarrow> snd (photoLoop ps 0 None)) of
        Some tmp \<Rightarrow> Some (Photo, tmp)
      | None \<Rightarrow> firstKey m [Sticker, Audio, Voice, Video, Document])"

section \<open>The bot: download\<close>

text \<open>
  \<open>processFile\<close>: the calls it makes and either the error it throws or the file name
  it returns.
\<close>

definition processFile ::
  "(level \<Rightarrow> int) \<Rightarrow> config \<Rightarrow> world \<Rightarrow> string \<Rightarrow> effect list \<times> (jserror + string)" where
  "processFile loaded cfg w fileId =
     (case getFileLink w fileId of
        Inl e \<Rightarrow> ([CallGetFileLink fileId], Inl e)
      | Inr href \<Rightarrow>
          (let fileName = nat_toString 16 (randomInt w (16 ^ 8) (16 ^ 9)) @
                          toLowerCase (extname href);
               target = PathJoin (savePath cfg) fileName
           in case fetchStream w href target of
                Some e \<Rightarrow> ([CallGetFileLink fileId, CallFetchStream href target], Inl e)
              | None \<Rightarrow>
                  ([CallGetFileLink fileId, CallFetchStream href target] @
                   info (main loaded) w (Val (JStr (''file '' @ fileName @ '' is created.''))) [],
                   Inr fileName)))"

section \<open>The bot: notification text\<close>

text \<open>\<open>s.replace(/c/g, r)\<close> for a single character \<open>c\<close>.\<close>

definition replace_all :: "char \<Rightarrow> string \<Rightarrow> string \<Rightarrow> string" where
  "replace_all c r s = concat (map (\<lambda>x. if x = c then r else [x]) s)"

definition escape_value :: "jsval \<Rightarrow> string" where
  "escape_value v =
     replace_all CHR ''>'' ''&gt;''
       (replace_all CHR ''<'' ''&lt;''
          (replace_all CHR ''&'' ''&amp;'' (js_String v)))"

text \<open>
  The loop of \<open>escape\<close>. \<open>cFormats.shift()\<close> on an empty array is \<open>undefined\<close>,
  which \<open>+=\<close> appends as the text \<open>undefined\<close>.
\<close>

fun escape_loop :: "string \<Rightarrow> string list \<Rightarrow> jsval list \<Rightarrow> string" where
  "escape_loop result cFormats [] = result @ concat cFormats"
| "escape_loop result cFormats (p # cPatterns) =
     escape_loop
       (result @ (case cFormats of [] \<Rightarrow> ''undefined'' | f # _ \<Rightarrow> f) @ escape_value p)
       (tl cFormats) cPatterns"

definition escape :: "string list \<Rightarrow> jsval list \<Rightarrow> string" where
  "escape formats patterns = escape_loop [] formats patterns"

text \<open>\<open>lines.join('\n')\<close>\<close>

fun join_lines :: "string list \<Rightarrow> string" where
  "join_lines [] = []"
| "join_lines [l] = l"
| "join_lines (l # ls) = l @ CHR 0x0A # join_lines ls"

section \<open>The bot: the message handler\<close>

text \<open>The context of a message update: sender, chat and the message.\<close>

record msg_ctx =
  ctx_from_id :: int
  ctx_chat_id :: int
  ctx_message :: message

definition num :: "int \<Rightarrow> string" where
  "num n = js_String (JNum n)"

text \<open>
  The notification text. Each tagged template \<open>escape`...`\<close> calls \<open>escape\<close> with
  its literal pieces and its interpolated values. \<open>stringify\<close> stands for
  \<open>JSON.stringify\<close> on the attachment.
\<close>

definition notification ::
  "config \<Rightarrow> (file_type \<times> tg_file \<Rightarrow> string) \<Rightarrow> msg_ctx \<Rightarrow> file_type \<times> tg_file \<Rightarrow>
   string \<Rightarrow> string" where
  "notification cfg stringify ctx file fileName =
     join_lines
       [escape [''from: '', []] [JNum (ctx_from_id ctx)],
        escape [''to: '', []] [JNum (ctx_chat_id ctx)],
        escape [''file: <code>'', ''</code> (unique: <code>'', ''</code>)'']
          [JStr (file_id (snd file)), JStr (file_unique_id (snd file))],
        escape [''url: '', ''/files/'', []] [JStr (domain cfg), JStr fileName],
        escape [''raw: <code>'', ''</code>''] [JStr (stringify file)]]"

definition onMessage ::
  "(level \<Rightarrow> int) \<Rightarrow> config \<Rightarrow> (file_type \<times> tg_file \<Rightarrow> string) \<Rightarrow> world \<Rightarrow>
   lastThreadIds \<Rightarrow> msg_ctx \<Rightarrow> effect list \<times> lastThreadIds" where
  "onMessage loaded cfg stringify w ids ctx =
     (let (thread, ids') = createThread loaded ids ''onMessage'';
          mid = message_id (ctx_message ctx);
          e0 = debug thread w
                 (Val (JStr (''from: '' @ num (ctx_from_id ctx) @ '', to: '' @
                             num (ctx_chat_id ctx) @ '', messageId: '' @ num mid))) []
      in if \<not> array_includes (enableGroups cfg) (ctx_chat_id ctx) then
           (e0 @ debug thread w (Val (JStr ''not in enableGroups, skip.'')) [], ids')
         else
           (case getFileIds (ctx_message ctx) of
              None \<Rightarrow> (e0 @ debug thread w (Val (JStr ''not file found, skip.'')) [], ids')
            | Some file \<Rightarrow>
                (case processFile loaded cfg w (file_id (snd file)) of
                   (e1, Inl err) \<Rightarrow>
                     (e0 @ e1 @ error thread w (Inspect err) [] @
                      [SendMessage (ChatId (ctx_chat_id ctx)) ''Fail to resolve file.''
                         \<lparr> reply_to_message_id = Some mid,
                           allow_sending_without_reply = Some False,
                           parse_mode = None, callback_button = None \<rparr>], ids')
                 | (e1, Inr fileName) \<Rightarrow>
                     (let text = notification cfg stringify ctx file fileName
                      in (e0 @ e1 @
                          debug thread w (Val (JStr (''file name: '' @ fileName))) [] @
                          [SendMessage (ChatId (ctx_chat_id ctx)) text
                             \<lparr> reply_to_message_id = Some mid,
                               allow_sending_without_reply = Some True,
                               parse_mode = Some ''HTML'',
                               callback_button =
                                 Some (''Does file exist now?'', ''exist:'' @ fileName) \<rparr>,
                           SendMessage (ChatName (infoChannel cfg)) text
                             \<lparr> reply_to_message_id = None,
                               allow_sending_without_reply = None,
                               parse_mode = Some ''HTML'',
                               callback_button =
                                 Some (''Delete it.'', ''remove:'' @ fileName) \<rparr>],
                          ids')))))"

section \<open>The bot: the button handlers\<close>

text \<open>
  The message a button is attached to, as the callback query carries it (\<open>date\<close> in
  seconds), and the callback query.
\<close>

record origin_message =
  from_id :: "int option"
  sender_chat_id :: "int option"
  chat_id :: int
  msg_id :: int
  date :: int

record callbackQuery =
  query_id :: string
  query_from_id :: int
  query_message :: "origin_message option"
  query_data :: string

text \<open>The patterns of \<open>bot.action\<close>: \<open>[\da-f]\<close>, \<open>[a-z]\<close> and the file name.\<close>

definition is_hex :: "char \<Rightarrow> bool" where
  "is_hex c =
     (let n = (of_char c :: nat) in (48 \<le> n \<and> n \<le> 57) \<or> (97 \<le> n \<and> n \<le> 102))"

definition is_lower :: "char \<Rightarrow> bool" where
  "is_lower c = (let n = (of_char c :: nat) in 97 \<le> n \<and> n \<le> 122)"

text \<open>
  A whole string matches \<open>[\da-f]+\.[a-z]+\<close>: no hexadecimal digit is a dot, so the
  first part is the longest run of hexadecimal digits.
\<close>

definition match_file :: "string \<Rightarrow> bool" where
  "match_file s =
     (takeWhile is_hex s \<noteq> [] \<and>
      (case dropWhile is_hex s of
         [] \<Rightarrow> False
       | c # e \<Rightarrow> c = CHR ''.'' \<and> e \<noteq> [] \<and> list_all is_lower e))"

text \<open>\<open>/^verb:(?<file>[\da-f]+\.[a-z]+)$/\<close> on the data of a button: the group \<open>file\<close>.\<close>

definition match_action :: "string \<Rightarrow> string \<Rightarrow> string option" where
  "match_action verb data =
     (let n = length verb + 1 in
      if take n data = verb @ '':'' \<and> match_file (drop n data) then Some (drop n data)
      else None)"

text \<open>
  The template of the first debug line of the \<open>exist\<close> handler. It reads
  \<open>message.from!.id\<close>: on a message without \<open>from\<close> this throws a \<open>TypeError\<close>.
\<close>

definition typeError :: jserror where
  "typeError = JsError None ''TypeError''"

definition existRawMessage :: "origin_message option \<Rightarrow> jserror + string" where
  "existRawMessage mo =
     (case mo of
        None \<Rightarrow> Inr ''null''
      | Some m \<Rightarrow>
          (case from_id m of
             None \<Rightarrow> Inl typeError
           | Some f \<Rightarrow>
               Inr (''{ from: '' @ num f @ '', to: '' @ num (chat_id m) @
                    '', messageId: '' @ num (msg_id m) @ '' }'')))"

text \<open>\<open>fs.constants.R_OK\<close> and \<open>W_OK\<close>; \<open>R_OK | W_OK\<close> is their bitwise or.\<close>

definition R_OK :: nat where
  "R_OK = 4"

definition W_OK :: nat where
  "W_OK = 2"

definition cache0 :: "cb_extra option" where
  "cache0 = Some \<lparr> show_alert = None, cache_time = Some 0 \<rparr>"

text \<open>The apostrophe of \<open>isn't\<close>.\<close>

definition isnt :: string where
  "isnt = '' isn'' @ [CHR 0x27] @ ''t exist.''"

text \<open>
  A handler's outcome: the calls it made, the thread counters, and the error its own
  code threw if it threw one. Whether a platform call (an answer, an edit, a delete,
  a send) later fails is not part of the world and so not part of the outcome.
\<close>

type_synonym outcome = "effect list \<times> lastThreadIds \<times> jserror option"

definition onActionExist ::
  "(level \<Rightarrow> int) \<Rightarrow> config \<Rightarrow> world \<Rightarrow> lastThreadIds \<Rightarrow> callbackQuery \<Rightarrow> string \<Rightarrow> outcome" where
  "onActionExist loaded cfg w ids q file =
     (let (thread, ids') = createThread loaded ids ''onAction:exist''
      in case existRawMessage (query_message q) of
           Inl e \<Rightarrow> ([], ids', Some e)
         | Inr raw \<Rightarrow>
             (let e0 = debug thread w
                         (Val (JStr (''id: '' @ query_id q @ '', from: '' @
                                     num (query_from_id q) @ '', rawMessage: '' @ raw @
                                     '', file: '' @ file))) [] @
                       [FsAccess (PathJoin (savePath cfg) file) R_OK]
              in case fs_access w (PathJoin (savePath cfg) file) R_OK of
                   None \<Rightarrow>
                     (e0 @ debug thread w (Val (JStr ''file is exist.'')) [] @
                      [AnswerCbQuery (''File '' @ file @ '' is exist.'') cache0], ids', None)
                 | Some err \<Rightarrow>
                     if err_code err = Some ''ENOENT'' then
                       (e0 @ debug thread w (Val (JStr (''file'' @ isnt))) [] @
                        [AnswerCbQuery (''File '' @ file @ isnt) cache0], ids', None)
                     else
                       (e0 @ error thread w (Inspect err) [] @
                        [AnswerCbQuery ''Fail to resolve file.'' cache0], ids', None)))"

definition removeRawMessage :: "origin_message option \<Rightarrow> string" where
  "removeRawMessage mo =
     (case mo of
        None \<Rightarrow> ''null''
      | Some m \<Rightarrow>
          ''{ from: '' @
          (case from_id m of
             Some f \<Rightarrow> num f
           | None \<Rightarrow> (case sender_chat_id m of Some c \<Rightarrow> num c | None \<Rightarrow> [])) @
          '', to: '' @ num (chat_id m) @ '', messageId: '' @ num (msg_id m) @ '' }'')"

text \<open>
  The last stage of the \<open>remove\<close> handler: the call on the button's message, then the
  answer to the button press.
\<close>

definition removeFinish ::
  "logger \<Rightarrow> world \<Rightarrow> callbackQuery \<Rightarrow> origin_message \<Rightarrow> string \<Rightarrow> bool \<Rightarrow> effect list" where
  "removeFinish thread w q message file isExist =
     (if date message * 1000 < date_now w - 48 * 3600 * 1000 then
        debug thread w (Val (JStr ''channel message is too old to delete.'')) [] @
        [EditMessageText (query_from_id q) (chat_id message) None
           (''File '' @ file @ '' has been removed.'')]
      else
        debug thread w (Val (JStr ''delete message.'')) [] @
        [DeleteMessage (chat_id message) (msg_id message)]) @
     [AnswerCbQuery
        (if isExist then ''Delete '' @ file @ '' success.''
         else ''File'' @ file @ '' has been removed.'')
        (Some \<lparr> show_alert = Some True, cache_time = Some 3600 \<rparr>)]"

definition onActionRemove ::
  "(level \<Rightarrow> int) \<Rightarrow> config \<Rightarrow> world \<Rightarrow> lastThreadIds \<Rightarrow> callbackQuery \<Rightarrow> string \<Rightarrow> outcome" where
  "onActionRemove loaded cfg w ids q file =
     (let (thread, ids') = createThread loaded ids ''onAction:remove'';
          e0 = debug thread w
                 (Val (JStr (''id: '' @ query_id q @ '', from: '' @ num (query_from_id q) @
                             '', rawMessage: '' @ removeRawMessage (query_message q) @
                             '', file: '' @ file))) [];
          target = PathJoin (savePath cfg) file
      in case query_message q of
           None \<Rightarrow>
             (e0 @ warn thread w (Val (JStr ''message is null.'')) [] @
              [AnswerCbQuery ''Internal error.'' cache0], ids', None)
         | Some message \<Rightarrow>
             (let e1 = e0 @ [FsAccess target (or R_OK W_OK)]
              in case fs_access w target (or R_OK W_OK) of
                   Some err \<Rightarrow>
                     if err_code err = Some ''ENOENT'' then
                       (e1 @ debug thread w (Val (JStr ''file has been removed.'')) [] @
                        removeFinish thread w q message file False, ids', None)
                     else
                       (e1 @ error thread w (Inspect err) [] @
                        [AnswerCbQuery (''Fail to resolve file '' @ file @ '' .'') cache0],
                        ids', None)
                 | None \<Rightarrow>
                     (case fs_rm w target of
                        None \<Rightarrow>
                          (e1 @ [FsRm target] @
                           info (main loaded) w
                             (Val (JStr (''file '' @ file @ '' is removed.''))) [] @
                           removeFinish thread w q message file True, ids', None)
                      | Some err \<Rightarrow>
                          (e1 @ [FsRm target] @ error thread w (Inspect err) [] @
                           [AnswerCbQuery (''Fail to resolve file '' @ file @ '' .'') None],
                           ids', None))))"

text \<open>
  The dispatch of a button press: the first pattern that matches the data chooses the
  handler; data that matches neither pattern reaches no handler. An error a handler
  throws goes to \<open>bot.catch\<close>, which logs it.
\<close>

datatype route = RouteExist string | RouteRemove string | NoRoute

definition route_action :: "string \<Rightarrow> route" where
  "route_action data =
     (case match_action ''exist'' data of
        Some file \<Rightarrow> RouteExist file
      | None \<Rightarrow>
          (case match_action ''remove'' data of
             Some file \<Rightarrow> RouteRemove file
           | None \<Rightarrow> NoRoute))"

definition botCatch :: "(level \<Rightarrow> int) \<Rightarrow> world \<Rightarrow> outcome \<Rightarrow> effect list \<times> lastThreadIds" where
  "botCatch loaded w r =
     (case r of
        (es, ids, None) \<Rightarrow> (es, ids)
      | (es, ids, Some err) \<Rightarrow> (es @ error (main loaded) w (Inspect err) [], ids))"

definition onCallbackQuery ::
  "(level \<Rightarrow> int) \<Rightarrow> config \<Rightarrow> world \<Rightarrow> lastThreadIds \<Rightarrow> callbackQuery \<Rightarrow>
   effect list \<times> lastThreadIds" where
  "onCallbackQuery loaded cfg w ids q =
     (case route_action (query_data q) of
        RouteExist file \<Rightarrow> botCatch loaded w (onActionExist loaded cfg w ids q file)
      | RouteRemove file \<Rightarrow> botCatch loaded w (onActionRemove loaded cfg w ids q file)
      | NoRoute \<Rightarrow> ([], ids))"

section \<open>Observing a run\<close>

text \<open>
  The calls of a run sorted by kind: the logging calls of a severity, the calls that
  are not logging, the filesystem calls (the probe, the removal, and the download,
  which writes a file), the answers to a button press, and the calls that edit or
  delete a message.
\<close>

fun is_log :: "effect \<Rightarrow> bool" where
  "is_log (Console l f as) = True"
| "is_log e = False"

fun is_log_at :: "level \<Rightarrow> effect \<Rightarrow> bool" where
  "is_log_at l (Console l' f as) = (l = l')"
| "is_log_at l e = False"

fun is_fs :: "effect \<Rightarrow> bool" where
  "is_fs (FsAccess p m) = True"
| "is_fs (FsRm p) = True"
| "is_fs (CallFetchStream u p) = True"
| "is_fs e = False"

fun is_answer :: "effect \<Rightarrow> bool" where
  "is_answer (AnswerCbQuery t x) = True"
| "is_answer e = False"

fun is_message_call :: "effect \<Rightarrow> bool" where
  "is_message_call (EditMessageText c m i t) = True"
| "is_message_call (DeleteMessage c m) = True"
| "is_message_call e = False"

definition actions :: "effect list \<Rightarrow> effect list" where
  "actions es = filter (\<lambda>e. \<not> is_log e) es"

definition logs_at :: "level \<Rightarrow> effect list \<Rightarrow> effect list" where
  "logs_at l es = filter (is_log_at l) es"

definition fs_calls :: "effect list \<Rightarrow> effect list" where
  "fs_calls es = filter is_fs es"

definition answers :: "effect list \<Rightarrow> effect list" where
  "answers es = filter is_answer es"

definition message_calls :: "effect list \<Rightarrow> effect list" where
  "message_calls es = filter is_message_call es"

text \<open>The last sequence number a label was given, 0 when it has none yet.\<close>

definition lastId :: "lastThreadIds \<Rightarrow> string \<Rightarrow> nat" where
  "lastId ids l = (case ids l of None \<Rightarrow> 0 | Some n \<Rightarrow> n)"

text \<open>The declared size of a variant, an absent size counting as 0.\<close>

definition declared_size :: "tg_file \<Rightarrow> nat" where
  "declared_size p = (case file_size p of None \<Rightarrow> 0 | Some n \<Rightarrow> n)"

text \<open>
  The escaping rule as the specification words it: three characters have an entity,
  every other character stands for itself.
\<close>

definition spec_entity :: "char \<Rightarrow> string" where
  "spec_entity c =
     (if c = CHR ''&'' then ''&amp;''
      else if c = CHR ''<'' then ''&lt;''
      else if c = CHR ''>'' then ''&gt;''
      else [c])"

section \<open>A concrete deployment\<close>

definition ex_env :: "string \<Rightarrow> string option" where
  "ex_env =
     map_of
       [(''BOT_TOKEN'', ''123:ABC''), (''FILE_SAVE_PATH'', ''/srv/files''),
        (''DOMAIN'', ''files.example.org''), (''ENABLE_GROUPS'', ''-1001,-1002''),
        (''INFO_CHANNEL'', ''-1009'')]"

definition ex_cfg :: config where
  "ex_cfg =
     \<lparr> bot_token = ''123:ABC'', savePath = ''/srv/files'',
       domain = ''https://files.example.org'',
       enableGroups = [Some (- 1001), None], infoChannel = ''-1009'' \<rparr>"

definition ex_loaded :: "level \<Rightarrow> int" where
  "ex_loaded l = 1690000000000"

definition ex_href :: string where
  "ex_href = ''https://api.telegram.org/file/bot123:ABC/videos/file_0.mp4''"

definition ex_world :: world where
  "ex_world =
     \<lparr> env_DEBUG = None, date_now = 1700000000000,
       fs_access = (\<lambda>p m. None), fs_rm = (\<lambda>p. None),
       getFileLink = (\<lambda>fileId. Inr ex_href),
       fetchStream = (\<lambda>u p. None), entropy = 0 \<rparr>"

definition enoent :: jserror where
  "enoent = JsError (Some ''ENOENT'') ''no such file or directory''"

definition eacces :: jserror where
  "eacces = JsError (Some ''EACCES'') ''permission denied''"

definition ex_video :: tg_file where
  "ex_video =
     \<lparr> file_id = ''BAACAgIAAx0'', file_unique_id = ''AgADzQ'', file_size = Some 1048576 \<rparr>"

definition ex_ctx :: "int \<Rightarrow> msg_ctx" where
  "ex_ctx chat =
     \<lparr> ctx_from_id = 555, ctx_chat_id = chat,
       ctx_message =
         \<lparr> message_id = 7, photo = None, sticker = None, audio = None, voice = None,
           video = Some ex_video, document = None \<rparr> \<rparr>"

definition ex_photo :: "string \<Rightarrow> nat option \<Rightarrow> tg_file" where
  "ex_photo name sz = \<lparr> file_id = name, file_unique_id = name, file_size = sz \<rparr>"

definition ex_photos :: "tg_file list" where
  "ex_photos =
     [ex_photo ''a'' (Some 100), ex_photo ''b'' None, ex_photo ''c'' (Some 800),
      ex_photo ''d'' (Some 800), ex_photo ''e'' (Some 0)]"

definition ex_photo_message :: message where
  "ex_photo_message =
     \<lparr> message_id = 9, photo = Some ex_photos, sticker = None, audio = None,
       voice = None, video = None, document = Some ex_video \<rparr>"

definition ex_old_message :: origin_message where
  "ex_old_message =
     \<lparr> from_id = None, sender_chat_id = Some (- 1001234567890),
       chat_id = - 1001234567890, msg_id = 42, date = 1600000000 \<rparr>"

definition ex_remove_query :: callbackQuery where
  "ex_remove_query =
     \<lparr> query_id = ''q1'', query_from_id = 777, query_message = Some ex_old_message,
       query_data = ''remove:1a2b3c4d5.jpg'' \<rparr>"

definition ex_exist_query :: callbackQuery where
  "ex_exist_query =
     \<lparr> query_id = ''q2'', query_from_id = 777,
       query_message =
         Some \<lparr> from_id = Some 999, sender_chat_id = None, chat_id = - 1001, msg_id = 8,
                date = 1699999000 \<rparr>,
       query_data = ''exist:1a2b3c4d5.jpg'' \<rparr>"

definition ex_stringify :: "file_type \<times> tg_file \<Rightarrow> string" where
  "ex_stringify f = ''{}''"

section \<open>Facts about the logger\<close>

lemma toUpperCase_names [simp]:
  "toUpperCase ''debug'' = ''DEBUG''" "toUpperCase ''info'' = ''INFO''"
  "toUpperCase ''warn'' = ''WARN''" "toUpperCase ''error'' = ''ERROR''"
  by code_simp+

lemma toUpperCase_level:
  "toUpperCase (level_name l) =
     (case l of Debug \<Rightarrow> ''DEBUG'' | Info \<Rightarrow> ''INFO'' | Warn \<Rightarrow> ''WARN'' | Error \<Rightarrow> ''ERROR'')"
  by (cases l) simp_all

lemma createThread_id_lastId: "createThread_id ids l = Suc (lastId ids l)"
  by (simp add: createThread_id_def lastId_def split: option.splits)

lemma snd_createThread: "snd (createThread loaded ids l) = ids(l \<mapsto> createThread_id ids l)"
  by (simp add: createThread_def Let_def)

lemma lastId_createThread:
  "lastId (snd (createThread loaded ids x)) l = (if x = l then Suc (lastId ids l) else lastId ids l)"
  by (simp add: snd_createThread createThread_id_lastId lastId_def)

lemma createThreads_from:
  "map snd (filter (\<lambda>p. fst p = l) (zip ls (createThreads loaded ids ls))) =
     [Suc (lastId ids l) ..< Suc (lastId ids l) + length (filter (\<lambda>x. x = l) ls)]"
proof (induction ls arbitrary: ids)
  case Nil
  show ?case by simp
next
  case (Cons x xs)
  show ?case
  proof (cases "x = l")
    case True
    have step: "[Suc c ..< Suc c + Suc n] = Suc c # [Suc (Suc c) ..< Suc (Suc c) + n]" for c n
      by (simp add: upt_conv_Cons del: upt_Suc)
    from True show ?thesis
      using Cons.IH [of "snd (createThread loaded ids x)"] step [of "lastId ids l"]
      by (simp add: lastId_createThread createThread_id_lastId del: upt_Suc)
  next
    case False
    then show ?thesis
      using Cons.IH [of "snd (createThread loaded ids x)"]
      by (simp add: lastId_createThread)
  qed
qed

lemma base_op:
  "logger_op (baseLogger loaded) l w m ps =
     (if l = Debug \<and> debug_disabled w then []
      else [Console l (Val (JStr ''[%s] [%s] %s''))
              [IsoString (loaded l), Val (JStr (toUpperCase (level_name l))), Format m ps]])"
  by (cases l) (simp_all add: baseLogger_def internalLog_def makeLogger_def console_def)

lemma thread_op:
  "logger_op (fst (createThread loaded ids n)) l w m ps =
     (if l = Debug \<and> debug_disabled w then []
      else [Console l (Val (JStr ''[%s] [%s] %s''))
              [IsoString (loaded l), Val (JStr (toUpperCase (level_name l))),
               Format (Val (JStr ''[%s] %s'')) [createThread_name ids n, Format m ps]]])"
  by (cases l)
    (simp_all add: createThread_def Let_def getLogger_def baseLogger_def internalLog_def
      makeLogger_def console_def)

lemma main_op:
  "logger_op (main loaded) l w m ps =
     (if l = Debug \<and> debug_disabled w then []
      else [Console l (Val (JStr ''[%s] [%s] %s''))
              [IsoString (loaded l), Val (JStr (toUpperCase (level_name l))),
               Format (Val (JStr ''[%s] %s'')) [Val (JStr ''main''), Format m ps]]])"
  by (cases l)
    (simp_all add: main_def getLogger_def baseLogger_def internalLog_def makeLogger_def
      console_def)

lemmas thread_debug = thread_op [of _ _ _ Debug, simplified]
lemmas thread_warn = thread_op [of _ _ _ Warn, simplified]
lemmas thread_error = thread_op [of _ _ _ Error, simplified]
lemmas main_info = main_op [of _ Info, simplified]
lemmas main_error = main_op [of _ Error, simplified]

lemma thread_line_name:
  "line_name (warn (fst (createThread loaded ids l)) w m ps) =
     Some (Format (Val (JStr ''%s:%d''))
             [Val (JStr l), Val (JNum (int (Suc (lastId ids l))))])"
  by (simp add: thread_warn line_name_def createThread_name_def createThread_id_lastId)

lemma threadNames_from:
  "map snd (filter (\<lambda>p. fst p = l) (zip ls (threadNames loaded w ids ls))) =
     map (\<lambda>k. Some (Format (Val (JStr ''%s:%d'')) [Val (JStr l), Val (JNum (int k))]))
       [Suc (lastId ids l) ..< Suc (lastId ids l) + length (filter (\<lambda>x. x = l) ls)]"
proof (induction ls arbitrary: ids)
  case Nil
  show ?case by simp
next
  case (Cons x xs)
  show ?case
  proof (cases "x = l")
    case True
    have step: "[Suc c ..< Suc c + Suc n] = Suc c # [Suc (Suc c) ..< Suc (Suc c) + n]" for c n
      by (simp add: upt_conv_Cons del: upt_Suc)
    from True show ?thesis
      using Cons.IH [of "snd (createThread loaded ids x)"] step [of "lastId ids l"]
      by (simp add: lastId_createThread thread_line_name del: upt_Suc)
  next
    case False
    then show ?thesis
      using Cons.IH [of "snd (createThread loaded ids x)"]
      by (simp add: lastId_createThread)
  qed
qed

text \<open>
  C8. Within one run of the process, the sequence numbers \<open>createThread\<close> gives out
  for a label start at 1 and go up by exactly 1 with each call for that label: the
  first call on the empty map gives 1, a call gives one more than the call before it
  for the same label, calls for other labels change nothing, and over any sequence of
  calls the numbers given to a label are 1, 2, ..., up to the number of calls for it.
  The number is the one the returned thread carries: every line a returned logger
  writes names the thread \<open>label:id\<close> with that number, and the names read off the
  loggers returned over any sequence of calls are, for each label, \<open>label:1\<close>,
  \<open>label:2\<close>, ..., in this order.
\<close>

theorem createThread_sequence:
  "createThread_id Map.empty l = 1 \<and>
   createThread_id (snd (createThread loaded ids l)) l = createThread_id ids l + 1 \<and>
   createThread_id (snd (createThread loaded ids l')) l =
     (if l' = l then createThread_id ids l + 1 else createThread_id ids l) \<and>
   map snd (filter (\<lambda>p. fst p = l) (zip ls (createThreads loaded Map.empty ls))) =
     [1 ..< Suc (length (filter (\<lambda>x. x = l) ls))] \<and>
   logger_op (fst (createThread loaded ids l)) lv w m ps =
     (if lv = Debug \<and> debug_disabled w then []
      else [Console lv (Val (JStr ''[%s] [%s] %s''))
              [IsoString (loaded lv), Val (JStr (toUpperCase (level_name lv))),
               Format (Val (JStr ''[%s] %s''))
                 [Format (Val (JStr ''%s:%d''))
                    [Val (JStr l), Val (JNum (int (createThread_id ids l)))],
                  Format m ps]]]) \<and>
   map snd (filter (\<lambda>p. fst p = l) (zip ls (threadNames loaded w Map.empty ls))) =
     map (\<lambda>k. Some (Format (Val (JStr ''%s:%d'')) [Val (JStr l), Val (JNum (int k))]))
       [1 ..< Suc (length (filter (\<lambda>x. x = l) ls))]"
proof -
  have start: "lastId Map.empty l = 0"
    by (simp add: lastId_def)
  have numbers:
    "createThread_id Map.empty l = 1 \<and>
     createThread_id (snd (createThread loaded ids l)) l = createThread_id ids l + 1 \<and>
     createThread_id (snd (createThread loaded ids l')) l =
       (if l' = l then createThread_id ids l + 1 else createThread_id ids l) \<and>
     map snd (filter (\<lambda>p. fst p = l) (zip ls (createThreads loaded Map.empty ls))) =
       [1 ..< Suc (length (filter (\<lambda>x. x = l) ls))]"
    using start createThreads_from [of l ls loaded Map.empty]
    by (simp add: createThread_id_lastId lastId_createThread)
  have carried:
    "logger_op (fst (createThread loaded ids l)) lv w m ps =
       (if lv = Debug \<and> debug_disabled w then []
        else [Console lv (Val (JStr ''[%s] [%s] %s''))
                [IsoString (loaded lv), Val (JStr (toUpperCase (level_name lv))),
                 Format (Val (JStr ''[%s] %s''))
                   [Format (Val (JStr ''%s:%d''))
                      [Val (JStr l), Val (JNum (int (createThread_id ids l)))],
                    Format m ps]]])"
    by (simp add: thread_op createThread_name_def)
  have names:
    "map snd (filter (\<lambda>p. fst p = l) (zip ls (threadNames loaded w Map.empty ls))) =
       map (\<lambda>k. Some (Format (Val (JStr ''%s:%d'')) [Val (JStr l), Val (JNum (int k))]))
         [1 ..< Suc (length (filter (\<lambda>x. x = l) ls))]"
    using start threadNames_from [of l ls loaded w Map.empty]
    by simp
  show ?thesis
    using numbers carried names by (simp only: simp_thms)
qed

text \<open>
  C9. Every line written through an operation of the base logger, of the \<open>main\<close>
  logger or of a thread's logger carries as its timestamp the clock reading taken
  when the base logger of that severity was built at module load, whatever the clock
  shows when the line is written; only \<open>debug\<close> may write nothing.
\<close>

theorem log_timestamp_is_load_time:
  "logger_op (baseLogger loaded) l (w\<lparr>date_now := t\<rparr>) m ps =
     (if l = Debug \<and> debug_disabled w then []
      else [Console l (Val (JStr ''[%s] [%s] %s''))
              [IsoString (loaded l), Val (JStr (toUpperCase (level_name l))), Format m ps]]) \<and>
   logger_op (main loaded) l (w\<lparr>date_now := t\<rparr>) m ps =
     (if l = Debug \<and> debug_disabled w then []
      else [Console l (Val (JStr ''[%s] [%s] %s''))
              [IsoString (loaded l), Val (JStr (toUpperCase (level_name l))),
               Format (Val (JStr ''[%s] %s'')) [Val (JStr ''main''), Format m ps]]]) \<and>
   logger_op (fst (createThread loaded ids n)) l (w\<lparr>date_now := t\<rparr>) m ps =
     (if l = Debug \<and> debug_disabled w then []
      else [Console l (Val (JStr ''[%s] [%s] %s''))
              [IsoString (loaded l), Val (JStr (toUpperCase (level_name l))),
               Format (Val (JStr ''[%s] %s'')) [createThread_name ids n, Format m ps]]])"
proof -
  have "debug_disabled (w\<lparr>date_now := t\<rparr>) = debug_disabled w"
    by (simp add: debug_disabled_def)
  then show ?thesis
    by (simp add: base_op main_op thread_op)
qed

section \<open>Facts about the button handlers\<close>

lemma or_R_OK_W_OK: "or R_OK W_OK = 6"
  by (simp add: R_OK_def W_OK_def)

text \<open>
  C10. A \<open>remove\<close> button press whose callback query carries no message is answered
  with \<open>Internal error.\<close> at cache time 0, after a warning is logged, and that answer
  is the only call the handler makes besides logging: no filesystem probe, no
  deletion, no message edit and no message delete; the handler throws nothing.
\<close>

theorem remove_without_message:
  assumes "query_message q = None"
  shows "actions (fst (onActionRemove loaded cfg w ids q file)) =
           [AnswerCbQuery ''Internal error.'' (Some \<lparr> show_alert = None, cache_time = Some 0 \<rparr>)] \<and>
         fs_calls (fst (onActionRemove loaded cfg w ids q file)) = [] \<and>
         message_calls (fst (onActionRemove loaded cfg w ids q file)) = [] \<and>
         logs_at Warn (fst (onActionRemove loaded cfg w ids q file)) =
           [Console Warn (Val (JStr ''[%s] [%s] %s''))
              [IsoString (loaded Warn), Val (JStr ''WARN''),
               Format (Val (JStr ''[%s] %s''))
                 [createThread_name ids ''onAction:remove'',
                  Format (Val (JStr ''message is null.'')) []]]] \<and>
         snd (snd (onActionRemove loaded cfg w ids q file)) = None"
  using assms
  by (simp add: onActionRemove_def Let_def split_def thread_debug thread_warn cache0_def
      actions_def fs_calls_def message_calls_def logs_at_def)

theorem remove_without_message_witness:
  "query_message (ex_remove_query\<lparr>query_message := None\<rparr>) = None \<and>
   actions (fst (onActionRemove ex_loaded ex_cfg ex_world Map.empty
                  (ex_remove_query\<lparr>query_message := None\<rparr>) ''1a2b3c4d5.jpg'')) =
     [AnswerCbQuery ''Internal error.'' (Some \<lparr> show_alert = None, cache_time = Some 0 \<rparr>)] \<and>
   fs_calls (fst (onActionRemove ex_loaded ex_cfg ex_world Map.empty
                  (ex_remove_query\<lparr>query_message := None\<rparr>) ''1a2b3c4d5.jpg'')) = []"
  using remove_without_message
    [of "ex_remove_query\<lparr>query_message := None\<rparr>" ex_loaded ex_cfg ex_world Map.empty
      "''1a2b3c4d5.jpg''"]
  by simp

text \<open>
  C6. An \<open>exist\<close> button press that reaches the probe (the first debug line of the
  handler could be built) probes read access to the file under the save path and
  answers once, at cache time 0 in every case: \<open>File f is exist.\<close> when the probe
  succeeds, \<open>File f isn't exist.\<close> when it fails with code \<open>ENOENT\<close>, and
  \<open>Fail to resolve file.\<close> on any other error, which is then also logged at error
  severity; in the first two cases nothing is logged at error severity.
\<close>

theorem exist_acknowledgment:
  assumes "existRawMessage (query_message q) = Inr raw"
  shows "actions (fst (onActionExist loaded cfg w ids q file)) =
           [FsAccess (PathJoin (savePath cfg) file) R_OK,
            AnswerCbQuery
              (case fs_access w (PathJoin (savePath cfg) file) R_OK of
                 None \<Rightarrow> ''File '' @ file @ '' is exist.''
               | Some err \<Rightarrow>
                   if err_code err = Some ''ENOENT''
                   then ''File '' @ file @ '' isn'' @ [CHR 0x27] @ ''t exist.''
                   else ''Fail to resolve file.'')
              (Some \<lparr> show_alert = None, cache_time = Some 0 \<rparr>)] \<and>
         logs_at Error (fst (onActionExist loaded cfg w ids q file)) =
           (case fs_access w (PathJoin (savePath cfg) file) R_OK of
              None \<Rightarrow> []
            | Some err \<Rightarrow>
                if err_code err = Some ''ENOENT'' then []
                else [Console Error (Val (JStr ''[%s] [%s] %s''))
                        [IsoString (loaded Error), Val (JStr ''ERROR''),
                         Format (Val (JStr ''[%s] %s''))
                           [createThread_name ids ''onAction:exist'',
                            Format (Inspect err) []]]]) \<and>
         snd (snd (onActionExist loaded cfg w ids q file)) = None"
  using assms
  by (simp add: onActionExist_def Let_def split_def thread_debug thread_error cache0_def
      actions_def logs_at_def isnt_def split: option.splits)

theorem exist_acknowledgment_witness:
  "actions (fst (onActionExist ex_loaded ex_cfg ex_world Map.empty ex_exist_query
                  ''1a2b3c4d5.jpg'')) =
     [FsAccess (PathJoin ''/srv/files'' ''1a2b3c4d5.jpg'') 4,
      AnswerCbQuery ''File 1a2b3c4d5.jpg is exist.''
        (Some \<lparr> show_alert = None, cache_time = Some 0 \<rparr>)] \<and>
   actions (fst (onActionExist ex_loaded ex_cfg (ex_world\<lparr>fs_access := \<lambda>p m. Some enoent\<rparr>)
                  Map.empty ex_exist_query ''1a2b3c4d5.jpg'')) =
     [FsAccess (PathJoin ''/srv/files'' ''1a2b3c4d5.jpg'') 4,
      AnswerCbQuery (''File 1a2b3c4d5.jpg isn'' @ [CHR 0x27] @ ''t exist.'')
        (Some \<lparr> show_alert = None, cache_time = Some 0 \<rparr>)] \<and>
   actions (fst (onActionExist ex_loaded ex_cfg (ex_world\<lparr>fs_access := \<lambda>p m. Some eacces\<rparr>)
                  Map.empty ex_exist_query ''1a2b3c4d5.jpg'')) =
     [FsAccess (PathJoin ''/srv/files'' ''1a2b3c4d5.jpg'') 4,
      AnswerCbQuery ''Fail to resolve file.''
        (Some \<lparr> show_alert = None, cache_time = Some 0 \<rparr>)]"
proof -
  have raw: "existRawMessage (query_message ex_exist_query) =
               Inr (''{ from: '' @ num 999 @ '', to: '' @ num (- 1001) @
                    '', messageId: '' @ num 8 @ '' }'')"
    by (simp add: existRawMessage_def ex_exist_query_def)
  show ?thesis
    using exist_acknowledgment [OF raw, of ex_loaded ex_cfg ex_world Map.empty "''1a2b3c4d5.jpg''"]
      exist_acknowledgment [OF raw, of ex_loaded ex_cfg
        "ex_world\<lparr>fs_access := \<lambda>p m. Some enoent\<rparr>" Map.empty "''1a2b3c4d5.jpg''"]
      exist_acknowledgment [OF raw, of ex_loaded ex_cfg
        "ex_world\<lparr>fs_access := \<lambda>p m. Some eacces\<rparr>" Map.empty "''1a2b3c4d5.jpg''"]
    by (simp add: ex_cfg_def ex_world_def enoent_def eacces_def R_OK_def)
qed

text \<open>
  C5. A \<open>remove\<close> button press on a message, when the probe (read and write access)
  fails. With code \<open>ENOENT\<close> the handler makes, besides logging, exactly three calls
  in this order: the probe, the one call of the last stage on a message (an edit when
  the message is older than 48 hours, a delete otherwise), and one answer to the
  press, \<open>Filef has been removed.\<close>, as an alert at cache time 3600. So no file is
  removed or written, no message is sent, the user is told of the removal and of no
  failure, and nothing is logged at error severity. With any other error the handler
  makes exactly two calls, the probe and the answer \<open>Fail to resolve file f .\<close> at
  cache time 0, and logs the error at error severity: nothing is removed or written
  and no message is edited or deleted. In both cases the probe is the only filesystem
  call. What the platform calls return is outside the model.
\<close>

theorem remove_probe_failure:
  assumes "query_message q = Some message"
    and "fs_access w (PathJoin (savePath cfg) file) (or R_OK W_OK) = Some err"
  shows "actions (fst (onActionRemove loaded cfg w ids q file)) =
           (if err_code err = Some ''ENOENT'' then
              [FsAccess (PathJoin (savePath cfg) file) (or R_OK W_OK),
               if date message * 1000 < date_now w - 48 * 3600 * 1000
               then EditMessageText (query_from_id q) (chat_id message) None
                      (''File '' @ file @ '' has been removed.'')
               else DeleteMessage (chat_id message) (msg_id message),
               AnswerCbQuery (''File'' @ file @ '' has been removed.'')
                 (Some \<lparr> show_alert = Some True, cache_time = Some 3600 \<rparr>)]
            else
              [FsAccess (PathJoin (savePath cfg) file) (or R_OK W_OK),
               AnswerCbQuery (''Fail to resolve file '' @ file @ '' .'')
                 (Some \<lparr> show_alert = None, cache_time = Some 0 \<rparr>)]) \<and>
         fs_calls (fst (onActionRemove loaded cfg w ids q file)) =
           [FsAccess (PathJoin (savePath cfg) file) (or R_OK W_OK)] \<and>
         answers (fst (onActionRemove loaded cfg w ids q file)) =
           (if err_code err = Some ''ENOENT'' then
              [AnswerCbQuery (''File'' @ file @ '' has been removed.'')
                 (Some \<lparr> show_alert = Some True, cache_time = Some 3600 \<rparr>)]
            else
              [AnswerCbQuery (''Fail to resolve file '' @ file @ '' .'')
                 (Some \<lparr> show_alert = None, cache_time = Some 0 \<rparr>)]) \<and>
         logs_at Error (fst (onActionRemove loaded cfg w ids q file)) =
           (if err_code err = Some ''ENOENT'' then []
            else
              [Console Error (Val (JStr ''[%s] [%s] %s''))
                 [IsoString (loaded Error), Val (JStr ''ERROR''),
                  Format (Val (JStr ''[%s] %s''))
                    [createThread_name ids ''onAction:remove'', Format (Inspect err) []]]])"
  using assms
  by (simp add: onActionRemove_def removeFinish_def Let_def split_def thread_debug
      thread_error cache0_def actions_def logs_at_def fs_calls_def answers_def
      or_R_OK_W_OK)

theorem remove_probe_failure_witness:
  "actions (fst (onActionRemove ex_loaded ex_cfg (ex_world\<lparr>fs_access := \<lambda>p m. Some enoent\<rparr>)
                  Map.empty ex_remove_query ''1a2b3c4d5.jpg'')) =
     [FsAccess (PathJoin ''/srv/files'' ''1a2b3c4d5.jpg'') 6,
      EditMessageText 777 (- 1001234567890) None ''File 1a2b3c4d5.jpg has been removed.'',
      AnswerCbQuery ''File1a2b3c4d5.jpg has been removed.''
        (Some \<lparr> show_alert = Some True, cache_time = Some 3600 \<rparr>)] \<and>
   actions (fst (onActionRemove ex_loaded ex_cfg (ex_world\<lparr>fs_access := \<lambda>p m. Some enoent\<rparr>)
                  Map.empty
                  (ex_remove_query\<lparr>query_message := Some (ex_old_message\<lparr>date := 1699999000\<rparr>)\<rparr>)
                  ''1a2b3c4d5.jpg'')) =
     [FsAccess (PathJoin ''/srv/files'' ''1a2b3c4d5.jpg'') 6,
      DeleteMessage (- 1001234567890) 42,
      AnswerCbQuery ''File1a2b3c4d5.jpg has been removed.''
        (Some \<lparr> show_alert = Some True, cache_time = Some 3600 \<rparr>)] \<and>
   logs_at Error (fst (onActionRemove ex_loaded ex_cfg
                        (ex_world\<lparr>fs_access := \<lambda>p m. Some enoent\<rparr>) Map.empty ex_remove_query
                        ''1a2b3c4d5.jpg'')) = [] \<and>
   actions (fst (onActionRemove ex_loaded ex_cfg (ex_world\<lparr>fs_access := \<lambda>p m. Some eacces\<rparr>)
                  Map.empty ex_remove_query ''1a2b3c4d5.jpg'')) =
     [FsAccess (PathJoin ''/srv/files'' ''1a2b3c4d5.jpg'') 6,
      AnswerCbQuery ''Fail to resolve file 1a2b3c4d5.jpg .''
        (Some \<lparr> show_alert = None, cache_time = Some 0 \<rparr>)]"
proof -
  have m: "query_message ex_remove_query = Some ex_old_message"
    by (simp add: ex_remove_query_def)
  have m': "query_message
              (ex_remove_query\<lparr>query_message := Some (ex_old_message\<lparr>date := 1699999000\<rparr>)\<rparr>) =
            Some (ex_old_message\<lparr>date := 1699999000\<rparr>)"
    by simp
  have a: "fs_access (ex_world\<lparr>fs_access := \<lambda>p m. Some enoent\<rparr>)
             (PathJoin (savePath ex_cfg) ''1a2b3c4d5.jpg'') (or R_OK W_OK) = Some enoent"
    and b: "fs_access (ex_world\<lparr>fs_access := \<lambda>p m. Some eacces\<rparr>)
             (PathJoin (savePath ex_cfg) ''1a2b3c4d5.jpg'') (or R_OK W_OK) = Some eacces"
    by simp_all
  show ?thesis
    using remove_probe_failure [OF m a, of ex_loaded Map.empty]
      remove_probe_failure [OF m' a, of ex_loaded Map.empty]
      remove_probe_failure [OF m b, of ex_loaded Map.empty]
    by (simp add: ex_cfg_def ex_world_def ex_remove_query_def ex_old_message_def
        enoent_def eacces_def or_R_OK_W_OK)
qed

section \<open>The shape of a generated file name\<close>

lemma randomInt_range: "lo < hi \<Longrightarrow> lo \<le> randomInt w lo hi \<and> randomInt w lo hi < hi"
proof -
  assume "lo < hi"
  then have "entropy w mod (hi - lo) < hi - lo"
    by simp
  then show ?thesis
    by (simp add: randomInt_def)
qed

lemma is_hex_digit_char: "d < 16 \<Longrightarrow> is_hex (digit_char d)"
  by (simp add: is_hex_def digit_char_def Let_def)

lemma nat_toString_hex: "list_all is_hex (nat_toString 16 n)"
proof (induction "16 :: nat" n rule: nat_toString.induct)
  case (1 n)
  show ?case
  proof (cases "n < 16")
    case True
    then show ?thesis
      by (simp add: nat_toString.simps [of 16 n] is_hex_digit_char)
  next
    case False
    then show ?thesis
      using "1" by (simp add: nat_toString.simps [of 16 n] is_hex_digit_char)
  qed
qed

lemma nat_toString_length:
  "16 ^ k \<le> n \<Longrightarrow> n < 16 ^ Suc k \<Longrightarrow> length (nat_toString 16 n) = Suc k"
proof (induction k arbitrary: n)
  case 0
  then show ?case
    by (simp add: nat_toString.simps [of 16 n])
next
  case (Suc k)
  have big: "\<not> n < 16"
  proof -
    have "(16::nat) \<le> 16 ^ Suc k"
      by simp
    with Suc.prems(1) show ?thesis
      by linarith
  qed
  have lower: "16 ^ k \<le> n div 16"
    using Suc.prems(1) by (simp add: less_eq_div_iff_mult_less_eq mult.commute)
  have upper: "n div 16 < 16 ^ Suc k"
    using Suc.prems(2) by (simp add: less_mult_imp_div_less mult.commute)
  show ?case
    using Suc.IH [OF lower upper] big
    by (simp add: nat_toString.simps [of 16 n])
qed

lemma processFile_name:
  assumes "snd (processFile loaded cfg w fileId) = Inr name"
  shows "\<exists>href h. getFileLink w fileId = Inr href \<and> name = h @ toLowerCase (extname href) \<and>
           length h = 9 \<and> list_all is_hex h"
proof -
  have range: "16 ^ 8 \<le> randomInt w (16 ^ 8) (16 ^ 9) \<and> randomInt w (16 ^ 8) (16 ^ 9) < 16 ^ Suc 8"
    using randomInt_range [of "16 ^ 8" "16 ^ 9" w] by simp
  then have len: "length (nat_toString 16 (randomInt w (16 ^ 8) (16 ^ 9))) = 9"
    using nat_toString_length [of 8 "randomInt w (16 ^ 8) (16 ^ 9)"] by simp
  from assms show ?thesis
    using len nat_toString_hex [of "randomInt w (16 ^ 8) (16 ^ 9)"]
    by (auto simp: processFile_def Let_def split: sum.splits option.splits)
qed

lemma match_file_dot:
  assumes "h \<noteq> []" and "list_all is_hex h"
  shows "match_file (h @ CHR ''.'' # e) = (e \<noteq> [] \<and> list_all is_lower e)"
proof -
  have dot: "\<not> is_hex CHR ''.''"
    by (simp add: is_hex_def)
  have all: "\<forall>c\<in>set h. is_hex c"
    using assms(2) by (simp add: list_all_iff)
  have "takeWhile is_hex (h @ CHR ''.'' # e) = h"
    using all dot by (simp add: takeWhile_append2)
  moreover have "dropWhile is_hex (h @ CHR ''.'' # e) = CHR ''.'' # e"
    using all dot by simp
  ultimately show ?thesis
    using assms(1) by (simp add: match_file_def)
qed

lemma match_file_no_extension: "list_all is_hex h \<Longrightarrow> match_file h = False"
proof -
  assume "list_all is_hex h"
  then have none_left: "dropWhile is_hex h = []"
    by (simp add: list_all_iff)
  show ?thesis
    unfolding match_file_def none_left by simp
qed

section \<open>The deployment evaluated\<close>

lemma digit_char_values:
  "digit_char 0 = CHR ''0''" "digit_char (Suc 0) = CHR ''1''" "digit_char 2 = CHR ''2''"
  "digit_char 3 = CHR ''3''" "digit_char 4 = CHR ''4''" "digit_char 5 = CHR ''5''"
  "digit_char 6 = CHR ''6''" "digit_char 7 = CHR ''7''" "digit_char 8 = CHR ''8''"
  "digit_char 9 = CHR ''9''" "digit_char 10 = CHR ''a''" "digit_char 11 = CHR ''b''"
  "digit_char 12 = CHR ''c''" "digit_char 13 = CHR ''d''" "digit_char 14 = CHR ''e''"
  "digit_char 15 = CHR ''f''"
  by code_simp+

lemma nat_toString_first: "nat_toString 16 4294967296 = ''100000000''"
  by (simp add: nat_toString.simps digit_char_values)

lemma ex_href_extension: "extname ex_href = ''.mp4''" "toLowerCase ''.mp4'' = ''.mp4''"
  by code_simp+

lemma ex_groups: "map_parseInt (split_comma ''-1001,-1002'') = [Some (- 1001), None]"
  by code_simp

lemma ex_second_group: "parseInt ''-1002'' 1 = None" "parseInt ''-1002'' 10 = Some (- 1002)"
  by code_simp+

lemma ex_loadConfig: "loadConfig ex_env = Some ex_cfg"
  by code_simp

lemma ex_processFile:
  "processFile ex_loaded ex_cfg ex_world fileId =
     ([CallGetFileLink fileId,
       CallFetchStream ex_href (PathJoin ''/srv/files'' ''100000000.mp4'')] @
      info (main ex_loaded) ex_world (Val (JStr ''file 100000000.mp4 is created.'')) [],
      Inr ''100000000.mp4'')"
  by (simp add: processFile_def Let_def randomInt_def ex_world_def ex_cfg_def
      ex_href_extension nat_toString_first)

lemma ex_not_matched:
  "match_file ''100000000.mp4'' = False" "match_file ''100000000.jpg'' = True"
  "route_action ''exist:100000000.mp4'' = NoRoute"
  "route_action ''remove:100000000.mp4'' = NoRoute"
  "route_action ''exist:100000000.jpg'' = RouteExist ''100000000.jpg''"
  by code_simp+

lemma onMessage_ignored:
  "\<not> array_includes (enableGroups cfg) (ctx_chat_id ctx) \<Longrightarrow>
   actions (fst (onMessage loaded cfg stringify w ids ctx)) = []"
  by (simp add: onMessage_def Let_def split_def thread_debug actions_def)

lemma removeFinish_message_call:
  "message_calls (removeFinish (fst (createThread loaded ids n)) w q m file b) =
     [if date m * 1000 < date_now w - 48 * 3600 * 1000
      then EditMessageText (query_from_id q) (chat_id m) None
             (''File '' @ file @ '' has been removed.'')
      else DeleteMessage (chat_id m) (msg_id m)]"
  by (simp add: removeFinish_def message_calls_def thread_debug)

text \<open>
  C1. With \<open>ENABLE_GROUPS\<close> set to \<open>-1001,-1002\<close> the configuration loads, and the
  allow-list it holds is \<open>-1001\<close> and \<open>NaN\<close>: the second identifier is parsed with
  its index 1 as the radix, which gives \<open>NaN\<close>, where radix 10 gives \<open>-1002\<close>. A
  message with a video from chat \<open>-1002\<close> makes the handler do nothing but log; the
  same message from chat \<open>-1001\<close> starts the download.
\<close>

theorem enableGroups_entry_lost:
  "ex_env ''ENABLE_GROUPS'' = Some ''-1001,-1002'' \<and>
   loadConfig ex_env = Some ex_cfg \<and>
   enableGroups ex_cfg = [Some (- 1001), None] \<and>
   parseInt ''-1002'' 1 = None \<and> parseInt ''-1002'' 10 = Some (- 1002) \<and>
   array_includes (enableGroups ex_cfg) (- 1002) = False \<and>
   actions (fst (onMessage ex_loaded ex_cfg ex_stringify ex_world Map.empty (ex_ctx (- 1002)))) =
     [] \<and>
   take 2 (actions (fst (onMessage ex_loaded ex_cfg ex_stringify ex_world Map.empty
                          (ex_ctx (- 1001))))) =
     [CallGetFileLink ''BAACAgIAAx0'',
      CallFetchStream ex_href (PathJoin ''/srv/files'' ''100000000.mp4'')]"
proof -
  have env: "ex_env ''ENABLE_GROUPS'' = Some ''-1001,-1002''"
    by (simp add: ex_env_def)
  have groups: "enableGroups ex_cfg = [Some (- 1001), None]"
    by (simp add: ex_cfg_def)
  have out: "array_includes (enableGroups ex_cfg) (- 1002) = False"
    by (simp add: groups array_includes_def)
  have ignored:
    "actions (fst (onMessage ex_loaded ex_cfg ex_stringify ex_world Map.empty (ex_ctx (- 1002)))) = []"
    by (rule onMessage_ignored) (simp add: out ex_ctx_def)
  have served:
    "take 2 (actions (fst (onMessage ex_loaded ex_cfg ex_stringify ex_world Map.empty
                            (ex_ctx (- 1001))))) =
       [CallGetFileLink ''BAACAgIAAx0'',
        CallFetchStream ex_href (PathJoin ''/srv/files'' ''100000000.mp4'')]"
    by (simp add: onMessage_def Let_def split_def thread_debug main_info actions_def
        array_includes_def groups ex_ctx_def getFileIds_def ex_video_def ex_processFile)
  show ?thesis
    by (intro conjI) (fact env ex_loadConfig groups ex_second_group out ignored served)+
qed

text \<open>
  C2. The platform resolves a video to a link that ends in \<open>file_0.mp4\<close>; the
  download succeeds and \<open>processFile\<close> returns \<open>100000000.mp4\<close>, nine hexadecimal
  digits and the lowercased extension of the link. The extension holds a digit, so
  the name does not match the pattern of the button handlers: the data
  \<open>exist:100000000.mp4\<close> and \<open>remove:100000000.mp4\<close> of the two buttons reach no
  handler, and pressing the button does nothing at all.
\<close>

theorem generated_name_not_routed:
  "getFileLink ex_world ''BAACAgIAAx0'' =
     Inr ''https://api.telegram.org/file/bot123:ABC/videos/file_0.mp4'' \<and>
   snd (processFile ex_loaded ex_cfg ex_world ''BAACAgIAAx0'') = Inr ''100000000.mp4'' \<and>
   match_file ''100000000.mp4'' = False \<and>
   route_action (''exist:'' @ ''100000000.mp4'') = NoRoute \<and>
   route_action (''remove:'' @ ''100000000.mp4'') = NoRoute \<and>
   onCallbackQuery ex_loaded ex_cfg ex_world Map.empty
     (ex_exist_query\<lparr>query_data := ''exist:'' @ ''100000000.mp4''\<rparr>) = ([], Map.empty)"
proof -
  have link: "getFileLink ex_world ''BAACAgIAAx0'' =
                Inr ''https://api.telegram.org/file/bot123:ABC/videos/file_0.mp4''"
    by (simp add: ex_world_def ex_href_def)
  show ?thesis
    using link by (simp add: ex_processFile ex_not_matched onCallbackQuery_def)
qed

text \<open>
  C3. A \<open>remove\<close> button press by user 777 on the broadcast message 42 of channel
  \<open>-1001234567890\<close>, sent more than 48 hours before: the file is removed, and the
  one call on a message is \<open>editMessageText\<close> with the user's id 777 in the place of
  the chat id and the channel's id in the place of the message id. The message the
  button is on, message 42 of the channel, is neither edited nor deleted.
\<close>

theorem remove_old_message_edit_call:
  "query_message ex_remove_query = Some ex_old_message \<and>
   query_from_id ex_remove_query = 777 \<and>
   chat_id ex_old_message = - 1001234567890 \<and> msg_id ex_old_message = 42 \<and>
   date ex_old_message * 1000 < date_now ex_world - 48 * 3600 * 1000 \<and>
   message_calls (fst (onActionRemove ex_loaded ex_cfg ex_world Map.empty ex_remove_query
                        ''1a2b3c4d5.jpg'')) =
     [EditMessageText 777 (- 1001234567890) None ''File 1a2b3c4d5.jpg has been removed.'']"
proof -
  have calls:
    "message_calls (fst (onActionRemove ex_loaded ex_cfg ex_world Map.empty ex_remove_query
                          ''1a2b3c4d5.jpg'')) =
       message_calls (removeFinish (fst (createThread ex_loaded Map.empty ''onAction:remove''))
                        ex_world ex_remove_query ex_old_message ''1a2b3c4d5.jpg'' True)"
    by (simp add: onActionRemove_def Let_def split_def thread_debug main_info
        message_calls_def ex_remove_query_def ex_world_def)
  show ?thesis
    unfolding calls removeFinish_message_call
    by (simp add: ex_remove_query_def ex_old_message_def ex_world_def)
qed

section \<open>Facts about the text and the resolver\<close>

lemma replace_all_Nil [simp]: "replace_all c r [] = []"
  by (simp add: replace_all_def)

lemma replace_all_Cons [simp]:
  "replace_all c r (x # xs) = (if x = c then r else [x]) @ replace_all c r xs"
  by (simp add: replace_all_def)

lemma replace_all_append [simp]:
  "replace_all c r (a @ b) = replace_all c r a @ replace_all c r b"
  by (simp add: replace_all_def)

lemma three_replacements:
  "replace_all CHR ''>'' ''&gt;''
     (replace_all CHR ''<'' ''&lt;'' (replace_all CHR ''&'' ''&amp;'' s)) =
   concat (map spec_entity s)"
  by (induction s) (simp_all add: spec_entity_def)

lemma escape_loop_pieces:
  "escape_loop r (f0 # map snd pfs) (map fst pfs) =
     r @ f0 @ concat (map (\<lambda>(p, f). escape_value p @ f) pfs)"
proof (induction pfs arbitrary: r f0)
  case Nil
  show ?case by simp
next
  case (Cons pf pfs)
  obtain p f where pf: "pf = (p, f)"
    by (cases pf)
  show ?case
    using Cons.IH [of "r @ f0 @ escape_value p" f]
    by (simp add: pf)
qed

lemma escape_one: "escape [a, b] [v] = a @ escape_value v @ b"
  using escape_loop_pieces [of "[]" a "[(v, b)]"]
  by (simp add: escape_def)

lemma escape_two: "escape [a, b, c] [v, u] = a @ escape_value v @ b @ escape_value u @ c"
  using escape_loop_pieces [of "[]" a "[(v, b), (u, c)]"]
  by (simp add: escape_def)

text \<open>
  C7. The escaping of an interpolated value replaces each \<open>&\<close> by \<open>&amp;\<close>, each
  \<open><\<close> by \<open>&lt;\<close> and each \<open>>\<close> by \<open>&gt;\<close> and leaves every other character as it
  is. A template with literal pieces \<open>f0, f1, ..., fn\<close> and values \<open>p1, ..., pn\<close>
  gives \<open>f0\<close>, then each escaped value followed by its literal piece: the literal
  pieces are not changed. The value \<open><b>&\<close> is rendered \<open>&lt;b&gt;&amp;\<close>. Every value
  the notification text interpolates goes through this escaping.
\<close>

theorem escape_three_entities:
  "escape_value v = concat (map spec_entity (js_String v)) \<and>
   escape (f0 # map snd pfs) (map fst pfs) =
     f0 @ concat (map (\<lambda>(p, f). escape_value p @ f) pfs) \<and>
   escape [[], []] [JStr ''<b>&''] = ''&lt;b&gt;&amp;'' \<and>
   notification cfg stringify ctx file fileName =
     join_lines
       [''from: '' @ escape_value (JNum (ctx_from_id ctx)),
        ''to: '' @ escape_value (JNum (ctx_chat_id ctx)),
        ''file: <code>'' @ escape_value (JStr (file_id (snd file))) @
          ''</code> (unique: <code>'' @ escape_value (JStr (file_unique_id (snd file))) @
          ''</code>)'',
        ''url: '' @ escape_value (JStr (domain cfg)) @ ''/files/'' @
          escape_value (JStr fileName),
        ''raw: <code>'' @ escape_value (JStr (stringify file)) @ ''</code>'']"
proof -
  have value_rule: "escape_value u = concat (map spec_entity (js_String u))" for u
    by (simp add: escape_value_def three_replacements)
  have pieces: "escape (f0 # map snd pfs) (map fst pfs) =
                  f0 @ concat (map (\<lambda>(p, f). escape_value p @ f) pfs)"
    using escape_loop_pieces [of "[]" f0 pfs] by (simp add: escape_def)
  have example: "escape [[], []] [JStr ''<b>&''] = ''&lt;b&gt;&amp;''"
    by (simp add: escape_one value_rule spec_entity_def)
  have body: "notification cfg stringify ctx file fileName =
     join_lines
       [''from: '' @ escape_value (JNum (ctx_from_id ctx)),
        ''to: '' @ escape_value (JNum (ctx_chat_id ctx)),
        ''file: <code>'' @ escape_value (JStr (file_id (snd file))) @
          ''</code> (unique: <code>'' @ escape_value (JStr (file_unique_id (snd file))) @
          ''</code>)'',
        ''url: '' @ escape_value (JStr (domain cfg)) @ ''/files/'' @
          escape_value (JStr fileName),
        ''raw: <code>'' @ escape_value (JStr (stringify file)) @ ''</code>'']"
    unfolding notification_def escape_one escape_two by simp
  show ?thesis
    by (intro conjI) (fact value_rule pieces example body)+
qed

lemma photo_test:
  "(case file_size p of None \<Rightarrow> False | Some n \<Rightarrow> n \<noteq> 0 \<and> sz < n) = (sz < declared_size p)"
  by (auto simp: declared_size_def split: option.splits)

lemma photoLoop_step:
  "photoLoop (p # ps) sz (Some t) =
     (if sz < declared_size p then photoLoop ps (declared_size p) (Some p)
      else photoLoop ps sz (Some t))"
  by (simp add: photo_test) (simp add: declared_size_def)

lemma photoLoop_first:
  "photoLoop (p # ps) sz None = photoLoop ps (declared_size p) (Some p)"
  by (simp add: declared_size_def)

lemma photoLoop_first_largest:
  "\<exists>pre p post. t # ps = pre @ p # post \<and>
     photoLoop ps (declared_size t) (Some t) = (declared_size p, Some p) \<and>
     (\<forall>q\<in>set pre. declared_size q < declared_size p) \<and>
     (\<forall>q\<in>set post. declared_size q \<le> declared_size p)"
proof (induction ps arbitrary: t)
  case Nil
  have "[t] = [] @ t # []" by simp
  then show ?case by fastforce
next
  case (Cons x xs)
  show ?case
  proof (cases "declared_size t < declared_size x")
    case True
    from Cons.IH [of x] obtain pre p post where
      split: "x # xs = pre @ p # post" and
      loop: "photoLoop xs (declared_size x) (Some x) = (declared_size p, Some p)" and
      before: "\<forall>q\<in>set pre. declared_size q < declared_size p" and
      after: "\<forall>q\<in>set post. declared_size q \<le> declared_size p"
      by blast
    have "x = p \<or> x \<in> set pre"
      using split by (cases pre) auto
    then have "declared_size x \<le> declared_size p"
      using before by auto
    with True have t_less: "declared_size t < declared_size p"
      by simp
    have "t # x # xs = (t # pre) @ p # post"
      using split by simp
    moreover have "photoLoop (x # xs) (declared_size t) (Some t) = (declared_size p, Some p)"
      using True loop by (simp only: photoLoop_step if_True)
    moreover have "\<forall>q\<in>set (t # pre). declared_size q < declared_size p"
      using before t_less by simp
    ultimately show ?thesis
      using after by blast
  next
    case False
    from Cons.IH [of t] obtain pre p post where
      split: "t # xs = pre @ p # post" and
      loop: "photoLoop xs (declared_size t) (Some t) = (declared_size p, Some p)" and
      before: "\<forall>q\<in>set pre. declared_size q < declared_size p" and
      after: "\<forall>q\<in>set post. declared_size q \<le> declared_size p"
      by blast
    have run: "photoLoop (x # xs) (declared_size t) (Some t) = (declared_size p, Some p)"
      using False loop by (simp only: photoLoop_step if_False)
    show ?thesis
    proof (cases pre)
      case Nil
      then have "p = t" "post = xs"
        using split by simp_all
      then have "t # x # xs = [] @ p # (x # post)"
        by simp
      moreover have "\<forall>q\<in>set (x # post). declared_size q \<le> declared_size p"
        using after False \<open>p = t\<close> by simp
      moreover have "\<forall>q\<in>set ([] :: tg_file list). declared_size q < declared_size p"
        by simp
      ultimately show ?thesis
        using run by blast
    next
      case (Cons y pre')
      then have "y = t" and rest: "xs = pre' @ p # post"
        using split by simp_all
      then have "declared_size t < declared_size p"
        using before Cons by simp
      with False have "declared_size x < declared_size p"
        by simp
      then have "\<forall>q\<in>set (t # x # pre'). declared_size q < declared_size p"
        using before Cons \<open>y = t\<close> by simp
      moreover have "t # x # xs = (t # x # pre') @ p # post"
        using rest by simp
      ultimately show ?thesis
        using run after by blast
    qed
  qed
qed

text \<open>
  C4. For a message whose photo has at least one variant, \<open>getFileIds\<close> returns, as
  a photo, a variant \<open>p\<close> of the list such that every variant before \<open>p\<close> has a
  strictly smaller declared size and every variant after \<open>p\<close> has a declared size
  that is not larger, an absent size counting as 0: the variant of largest declared
  size, and the first of them in the order of the list when several are largest.
\<close>

theorem largest_photo_first_on_tie:
  assumes "photo m = Some ps" and "ps \<noteq> []"
  shows "\<exists>pre p post. ps = pre @ p # post \<and> getFileIds m = Some (Photo, p) \<and>
           (\<forall>q\<in>set pre. declared_size q < declared_size p) \<and>
           (\<forall>q\<in>set post. declared_size q \<le> declared_size p)"
proof -
  from assms(2) obtain t ts where ps: "ps = t # ts"
    by (cases ps) auto
  from photoLoop_first_largest [of t ts] obtain pre p post where
    split: "t # ts = pre @ p # post" and
    loop: "photoLoop ts (declared_size t) (Some t) = (declared_size p, Some p)" and
    before: "\<forall>q\<in>set pre. declared_size q < declared_size p" and
    after: "\<forall>q\<in>set post. declared_size q \<le> declared_size p"
    by blast
  have "getFileIds m = Some (Photo, p)"
    using assms(1) loop by (simp add: getFileIds_def ps photoLoop_first del: photoLoop.simps)
  then show ?thesis
    using split before after ps by blast
qed

theorem largest_photo_first_on_tie_witness:
  "photo ex_photo_message = Some ex_photos \<and> ex_photos \<noteq> [] \<and>
   getFileIds ex_photo_message = Some (Photo, ex_photo ''c'' (Some 800)) \<and>
   (\<exists>pre p post. ex_photos = pre @ p # post \<and> getFileIds ex_photo_message = Some (Photo, p) \<and>
      (\<forall>q\<in>set pre. declared_size q < declared_size p) \<and>
      (\<forall>q\<in>set post. declared_size q \<le> declared_size p))"
proof -
  have a: "photo ex_photo_message = Some ex_photos"
    by (simp add: ex_photo_message_def)
  have b: "ex_photos \<noteq> []"
    by (simp add: ex_photos_def)
  have c: "getFileIds ex_photo_message = Some (Photo, ex_photo ''c'' (Some 800))"
    by (simp add: getFileIds_def ex_photo_message_def ex_photos_def ex_photo_def)
  show ?thesis
    using a b c largest_photo_first_on_tie [OF a b] by blast
qed

end
